theory Spec2Isabelle
  imports Main "HOL-Library.Multiset" "HOL-Library.Sublist"
begin

section \<open>The suggestion catalog of \<^verbatim>\<open>book_club/suggestions.py\<close>\<close>

text \<open>
  The module wires Discord buttons, dropdowns and modals to a catalog of reading
  suggestions. Every handler is modelled as a function from the catalog to a result and
  the catalog afterwards: an exception that leaves the handler is \<open>Inl\<close> of its class,
  a response sent to Discord is \<open>Inr\<close> of it.
\<close>

subsection \<open>Exceptions, records and responses\<close>

datatype error =
    CheckFailure
  | ValueError
  | AttributeError
  | IndexError
  | DuplicateTitle
  | NotFound
  | InvalidInput

text \<open>
  The persisted fields of a \<^verbatim>\<open>database.Suggestion\<close>, under the attribute names the module
  reads and writes (\<^verbatim>\<open>title\<close>, \<^verbatim>\<open>next_ch\<close>, \<^verbatim>\<open>total_ch\<close>, \<^verbatim>\<open>notes\<close>, \<^verbatim>\<open>is_prioritized\<close>).
\<close>

record suggestion =
  title :: string
  owner_id :: int
  total_ch :: int
  next_ch :: int
  "notes" :: string
  is_prioritized :: bool

text \<open>A \<^verbatim>\<open>discord.Member\<close>: its id and the ids of its roles.\<close>

record member =
  user_id :: int
  role_ids :: "int list"

type_synonym db = "suggestion list"

text \<open>
  What the module imports and this repository's sources do not hold, or what is a
  built-in of the language. Each is a parameter of the model:
  \<^item> \<^verbatim>\<open>utils.roles.is_lit_chair\<close>, the privilege predicate;
  \<^item> \<^verbatim>\<open>utils.abbreviate\<close>, the label shown for a title;
  \<^item> the property \<^verbatim>\<open>Suggestion.status\<close>, the sort key of the listing;
  \<^item> the method \<^verbatim>\<open>Suggestion.display_title\<close>, one line of the listing;
  \<^item> the attribute \<^verbatim>\<open>Suggestion.doc_id\<close>, as a menu carries it back (a string);
  \<^item> Python's \<^verbatim>\<open>int\<close> on a string, \<open>None\<close> where it raises \<^verbatim>\<open>ValueError\<close>.
\<close>

record 'k env =
  is_lit_chair :: "member \<Rightarrow> bool"
  abbreviate :: "string \<Rightarrow> string"
  status :: "suggestion \<Rightarrow> 'k"
  display_title :: "suggestion \<Rightarrow> string"
  doc_id :: "suggestion \<Rightarrow> string"
  py_int :: "string \<Rightarrow> int option"

record embed =
  embed_title :: string
  description :: string

text \<open>One option of a \<^verbatim>\<open>discord.ui.Select\<close> and the menu with its cardinality bounds.\<close>

record select_option =
  opt_label :: string
  opt_value :: string
  opt_default :: bool

record select_menu =
  min_values :: nat
  max_values :: nat
  options :: "select_option list"

subsection \<open>The entity store\<close>

text \<open>
  Modelled from the spec: the module \<^verbatim>\<open>database\<close> (the class \<^verbatim>\<open>Suggestion\<close> with \<^verbatim>\<open>all\<close>,
  \<^verbatim>\<open>get\<close>, \<^verbatim>\<open>from_user\<close>, \<^verbatim>\<open>new\<close>, \<^verbatim>\<open>remove\<close>, and \<^verbatim>\<open>new_session\<close> with its commit) is
  not among the sources. The catalog is the list of its records in creation order.
  \<^verbatim>\<open>Suggestion.all()\<close> returns them all.
\<close>

definition Suggestion_all :: "db \<Rightarrow> suggestion list" where
  "Suggestion_all d = d"

text \<open>
  Modelled from the spec: \<^verbatim>\<open>Suggestion.get(title)\<close> is missing; section 4.1 has
  \<open>get(title)\<close> fail with \<open>NotFound\<close> if the title is absent. The match is exact.
\<close>

definition Suggestion_get :: "string \<Rightarrow> db \<Rightarrow> error + suggestion" where
  "Suggestion_get t d =
     (case find (\<lambda>s. title s = t) d of None \<Rightarrow> Inl NotFound | Some s \<Rightarrow> Inr s)"

text \<open>
  Modelled from the spec: \<^verbatim>\<open>Suggestion.from_user(id)\<close> is missing; section 4.1 has
  \<open>list_by_owner\<close> return the entries of that owner in the order of the full list.
\<close>

definition Suggestion_from_user :: "int \<Rightarrow> db \<Rightarrow> suggestion list" where
  "Suggestion_from_user uid d = filter (\<lambda>s. owner_id s = uid) (Suggestion_all d)"

text \<open>
  Modelled from the spec: \<^verbatim>\<open>Suggestion.new(title, owner, total_ch, notes)\<close> is missing;
  section 4.1 has \<open>create\<close> fail with \<open>DuplicateTitle\<close> if the title already exists and
  with \<open>InvalidInput\<close> if the notes are empty or the chapter count is negative; section 3
  gives the defaults \<open>next_chapter = 0\<close> and \<open>is_prioritized = false\<close>.
\<close>

definition Suggestion_new ::
  "string \<Rightarrow> int \<Rightarrow> int \<Rightarrow> string \<Rightarrow> db \<Rightarrow> (error + suggestion) \<times> db" where
  "Suggestion_new t uid n nts d =
     (if list_ex (\<lambda>s. title s = t) d then (Inl DuplicateTitle, d)
      else if nts = [] \<or> n < 0 then (Inl InvalidInput, d)
      else
        (let s = \<lparr>title = t, owner_id = uid, total_ch = n, next_ch = 0,
                  notes = nts, is_prioritized = False\<rparr>
         in (Inr s, d @ [s])))"

text \<open>
  Modelled from the spec: the method \<^verbatim>\<open>remove()\<close> of a \<^verbatim>\<open>Suggestion\<close> is missing;
  section 4.1 has \<open>remove(title)\<close> delete the record and fail with \<open>NotFound\<close> if absent.
\<close>

definition Suggestion_remove :: "suggestion \<Rightarrow> db \<Rightarrow> error + db" where
  "Suggestion_remove sug d =
     (if list_ex (\<lambda>s. title s = title sug) d
      then Inr (filter (\<lambda>s. title s \<noteq> title sug) d)
      else Inl NotFound)"

text \<open>
  Modelled from the spec: \<^verbatim>\<open>new_session()\<close> and \<^verbatim>\<open>session.commit()\<close> are missing;
  section 4.1 has \<open>update(title, fields)\<close> apply the changed fields of one call together,
  and fail with \<open>NotFound\<close> if the title does not exist at call time. The changed fields
  are a function on the stored record.
\<close>

definition Suggestion_update ::
  "string \<Rightarrow> (suggestion \<Rightarrow> suggestion) \<Rightarrow> db \<Rightarrow> error + db" where
  "Suggestion_update t f d =
     (if list_ex (\<lambda>s. title s = t) d
      then Inr (map (\<lambda>s. if title s = t then f s else s) d)
      else Inl NotFound)"

text \<open>
  Modelled from the spec: an attribute assigned on a loaded record outside a session
  (\<^verbatim>\<open>sug.is_prioritized = True\<close>). Section 4.1 has every mutation durable before the
  call returns, so the assignment is written through to the record of that title.
\<close>

definition set_is_prioritized :: "suggestion \<Rightarrow> bool \<Rightarrow> db \<Rightarrow> db" where
  "set_is_prioritized sug v d =
     map (\<lambda>s. if title s = title sug then s\<lparr>is_prioritized := v\<rparr> else s) d"

subsection \<open>Rendering: \<^verbatim>\<open>suggestions_embed\<close>\<close>

text \<open>Python's \<^verbatim>\<open>sep.join(xs)\<close>.\<close>

fun join :: "string \<Rightarrow> string list \<Rightarrow> string" where
  "join sep [] = []"
| "join sep [x] = x"
| "join sep (x # y # ys) = x @ sep @ join sep (y # ys)"

text \<open>
  The loop of \<^verbatim>\<open>suggestions_embed\<close>: \<^verbatim>\<open>sorted\<close> is a stable sort by the key, as
  \<open>sort_key\<close> is, and every record appends its display title.
\<close>

definition sorted_suggestions :: "('k::linorder) env \<Rightarrow> db \<Rightarrow> suggestion list" where
  "sorted_suggestions X d = sort_key (status X) (Suggestion_all d)"

definition embed_titles :: "('k::linorder) env \<Rightarrow> db \<Rightarrow> string list" where
  "embed_titles X d =
     fold (\<lambda>sug titles. titles @ [display_title X sug]) (sorted_suggestions X d) []"

definition suggestions_embed :: "('k::linorder) env \<Rightarrow> db \<Rightarrow> embed" where
  "suggestions_embed X d =
     \<lparr>embed_title = ''Suggested works:'',
      description = join [CHR 0x0A] (embed_titles X d)\<rparr>"

subsection \<open>The dropdowns\<close>

text \<open>
  \<^verbatim>\<open>Select.add_option\<close> of discord.py appends one option, and raises \<^verbatim>\<open>ValueError\<close>
  when the menu already holds 25 options. A loop of \<^verbatim>\<open>add_option\<close> calls in an
  initialiser stops at the first exception, which leaves the initialiser.
\<close>

definition add_option ::
  "string \<Rightarrow> string \<Rightarrow> bool \<Rightarrow> select_menu \<Rightarrow> error + select_menu" where
  "add_option l v dflt m =
     (if length (options m) \<ge> 25 then Inl ValueError
      else Inr (m\<lparr>options := options m @
                  [\<lparr>opt_label = l, opt_value = v, opt_default = dflt\<rparr>]\<rparr>))"

fun add_each ::
  "(suggestion \<Rightarrow> select_menu \<Rightarrow> error + select_menu) \<Rightarrow> suggestion list \<Rightarrow> select_menu
     \<Rightarrow> error + select_menu" where
  "add_each f [] m = Inr m"
| "add_each f (entry # entries) m =
     (case f entry m of
        Inl e \<Rightarrow> Inl e
      | Inr m' \<Rightarrow> add_each f entries m')"

definition Select_init :: "nat \<Rightarrow> nat \<Rightarrow> select_menu" where
  "Select_init lo hi = \<lparr>min_values = lo, max_values = hi, options = []\<rparr>"

text \<open>
  \<^verbatim>\<open>SuggestionsDropdown.__init__\<close>: \<^verbatim>\<open>Select()\<close> with its defaults (exactly one choice),
  then one option per record of \<^verbatim>\<open>Suggestion.all()\<close>.
\<close>

definition SuggestionsDropdown_init :: "'k env \<Rightarrow> db \<Rightarrow> error + select_menu" where
  "SuggestionsDropdown_init X d =
     add_each (\<lambda>entry. add_option (abbreviate X (title entry)) (title entry) False)
       (Suggestion_all d) (Select_init 1 1)"

text \<open>
  \<^verbatim>\<open>UserSuggestionsDropdown.__init__\<close>: \<^verbatim>\<open>super(SuggestionsDropdown, self).__init__()\<close>
  is the initialiser of \<^verbatim>\<open>Select\<close>, not the one above, so the menu starts empty and
  holds the records of \<^verbatim>\<open>Suggestion.from_user(user.id)\<close> only.
\<close>

definition UserSuggestionsDropdown_init ::
  "'k env \<Rightarrow> member \<Rightarrow> db \<Rightarrow> error + select_menu" where
  "UserSuggestionsDropdown_init X user d =
     add_each (\<lambda>entry. add_option (abbreviate X (title entry)) (title entry) False)
       (Suggestion_from_user (user_id user) d) (Select_init 1 1)"

text \<open>
  \<^verbatim>\<open>PrioritizeDropdown.__init__\<close>: zero to \<^verbatim>\<open>len(all)\<close> choices, the option of a record
  carries its \<^verbatim>\<open>doc_id\<close> and is pre-checked when the record is prioritized.
\<close>

definition PrioritizeDropdown_init :: "'k env \<Rightarrow> db \<Rightarrow> error + select_menu" where
  "PrioritizeDropdown_init X d =
     (let all = Suggestion_all d
      in add_each (\<lambda>entry. add_option (title entry) (doc_id X entry) (is_prioritized entry))
           all (Select_init 0 (length all)))"

text \<open>
  \<^verbatim>\<open>SuggestionsDropdown.callback\<close> replaces the message by the listing;
  \<^verbatim>\<open>get_all\<close> looks every chosen value up with \<^verbatim>\<open>Suggestion.get\<close> (the first failure
  leaves the comprehension); \<^verbatim>\<open>get\<close> takes the first chosen value.
\<close>

definition SuggestionsDropdown_callback ::
  "('k::linorder) env \<Rightarrow> db \<Rightarrow> (error + embed) \<times> db" where
  "SuggestionsDropdown_callback X d = (Inr (suggestions_embed X d), d)"

fun SuggestionsDropdown_get_all :: "string list \<Rightarrow> db \<Rightarrow> error + suggestion list" where
  "SuggestionsDropdown_get_all [] d = Inr []"
| "SuggestionsDropdown_get_all (t # ts) d =
     (case Suggestion_get t d of
        Inl e \<Rightarrow> Inl e
      | Inr s \<Rightarrow>
          (case SuggestionsDropdown_get_all ts d of
             Inl e \<Rightarrow> Inl e
           | Inr ss \<Rightarrow> Inr (s # ss)))"

definition SuggestionsDropdown_get :: "string list \<Rightarrow> db \<Rightarrow> error + suggestion" where
  "SuggestionsDropdown_get vals d =
     (case vals of [] \<Rightarrow> Inl IndexError | v # _ \<Rightarrow> Suggestion_get v d)"

subsection \<open>Adding: \<^verbatim>\<open>AddModal\<close>\<close>

text \<open>
  The submitted inputs of the form. \<^verbatim>\<open>CHAPTERS\<close> is optional, and the handler tests
  its value against \<^verbatim>\<open>None\<close> before its length.
\<close>

record AddModal =
  TITLE :: string
  CHAPTERS :: "string option"
  NOTES :: string

text \<open>Lines 80 to 83: \<^verbatim>\<open>total_ch\<close> is 0 unless the field holds text, then \<^verbatim>\<open>int\<close> of it.\<close>

definition AddModal_total_ch :: "'k env \<Rightarrow> string option \<Rightarrow> error + int" where
  "AddModal_total_ch X chapters =
     (case chapters of
        None \<Rightarrow> Inr 0
      | Some c \<Rightarrow>
          if length c > 0
          then (case py_int X c of None \<Rightarrow> Inl ValueError | Some n \<Rightarrow> Inr n)
          else Inr 0)"

definition AddModal_on_submit ::
  "('k::linorder) env \<Rightarrow> member \<Rightarrow> AddModal \<Rightarrow> db \<Rightarrow> (error + embed) \<times> db" where
  "AddModal_on_submit X user m d =
     (case AddModal_total_ch X (CHAPTERS m) of
        Inl e \<Rightarrow> (Inl e, d)
      | Inr tot \<Rightarrow>
          (case Suggestion_new (TITLE m) (user_id user) tot (NOTES m) d of
             (Inl e, d') \<Rightarrow> (Inl e, d')
           | (Inr s, d') \<Rightarrow> (Inr (suggestions_embed X d'), d')))"

subsection \<open>Editing: \<^verbatim>\<open>EditModal\<close>, \<^verbatim>\<open>EditDropdown\<close>, \<^verbatim>\<open>EditButton\<close>\<close>

text \<open>
  The modal object: the record loaded by \<^verbatim>\<open>__init__\<close>, the defaults shown in the four
  inputs, and the attribute \<^verbatim>\<open>self.notes\<close>, which exists once \<^verbatim>\<open>on_submit\<close> has
  assigned it.
\<close>

record EditModal =
  suggestion :: suggestion
  TITLE_default :: string
  NEXT_CH_default :: int
  TOTAL_CH_default :: int
  NOTES_default :: string
  self_notes :: "string option"

text \<open>The submitted inputs of the edit form.\<close>

record EditInputs =
  E_TITLE :: string
  E_NEXT_CH :: string
  E_TOTAL_CH :: string
  E_NOTES :: string

definition EditModal_init :: "string \<Rightarrow> db \<Rightarrow> error + EditModal" where
  "EditModal_init t d =
     (case Suggestion_get t d of
        Inl e \<Rightarrow> Inl e
      | Inr s \<Rightarrow>
          Inr \<lparr>suggestion = s, TITLE_default = title s, NEXT_CH_default = next_ch s,
               TOTAL_CH_default = total_ch s, NOTES_default = notes s,
               self_notes = None\<rparr>)"

text \<open>
  \<^verbatim>\<open>EditModal.on_submit\<close>. Inside the session the handler assigns
  \<^verbatim>\<open>self.suggestion.title\<close>, then \<^verbatim>\<open>next_ch\<close> and \<^verbatim>\<open>total_ch\<close> when their inputs hold
  text (\<^verbatim>\<open>int\<close> may raise, which leaves the block before the commit), then
  \<^verbatim>\<open>self.notes\<close>, an attribute of the modal and not of the record, and commits. The
  assignments to the record are the changed fields of the commit, applied to the row
  under the title the record was loaded with. The result holds the modal afterwards.
\<close>

definition EditModal_on_submit ::
  "('k::linorder) env \<Rightarrow> EditModal \<Rightarrow> EditInputs \<Rightarrow> db
     \<Rightarrow> (error + embed) \<times> EditModal \<times> db" where
  "EditModal_on_submit X m v d =
     (let old_title = title (suggestion m);
          w1 = (\<lambda>r. r\<lparr>title := E_TITLE v\<rparr>);
          m1 = m\<lparr>suggestion := w1 (suggestion m)\<rparr>
      in
        case (if length (E_NEXT_CH v) > 0
              then (case py_int X (E_NEXT_CH v) of
                      None \<Rightarrow> Inl ValueError
                    | Some n \<Rightarrow> Inr (\<lambda>r. r\<lparr>next_ch := n\<rparr>))
              else Inr (\<lambda>r. r)) of
          Inl e \<Rightarrow> (Inl e, m1, d)
        | Inr w2 \<Rightarrow>
            (let m2 = m1\<lparr>suggestion := w2 (suggestion m1)\<rparr>
             in
               case (if length (E_TOTAL_CH v) > 0
                     then (case py_int X (E_TOTAL_CH v) of
                             None \<Rightarrow> Inl ValueError
                           | Some n \<Rightarrow> Inr (\<lambda>r. r\<lparr>total_ch := n\<rparr>))
                     else Inr (\<lambda>r. r)) of
                 Inl e \<Rightarrow> (Inl e, m2, d)
               | Inr w3 \<Rightarrow>
                   (let m3 = m2\<lparr>suggestion := w3 (suggestion m2),
                                 self_notes := Some (E_NOTES v)\<rparr>
                    in
                      case Suggestion_update old_title (\<lambda>r. w3 (w2 (w1 r))) d of
                        Inl e \<Rightarrow> (Inl e, m3, d)
                      | Inr d' \<Rightarrow> (Inr (suggestions_embed X d'), m3, d'))))"

text \<open>
  \<^verbatim>\<open>EditDropdown.callback\<close> opens the modal for \<^verbatim>\<open>self.values[0]\<close>;
  \<^verbatim>\<open>EditButton.callback\<close> sends the menu of the user's own suggestions, and raises
  what building the menu raises.
\<close>

definition EditDropdown_callback :: "string list \<Rightarrow> db \<Rightarrow> (error + EditModal) \<times> db" where
  "EditDropdown_callback vals d =
     (case vals of
        [] \<Rightarrow> (Inl IndexError, d)
      | t # _ \<Rightarrow> (EditModal_init t d, d))"

definition EditButton_callback ::
  "'k env \<Rightarrow> member \<Rightarrow> db \<Rightarrow> (error + string \<times> select_menu) \<times> db" where
  "EditButton_callback X user d =
     (case UserSuggestionsDropdown_init X user d of
        Inl e \<Rightarrow> (Inl e, d)
      | Inr menu \<Rightarrow> (Inr (''Which suggestions would you like to edit?'', menu), d))"

subsection \<open>Removing: \<^verbatim>\<open>RemoveDropdown\<close>, \<^verbatim>\<open>RemoveButton\<close>\<close>

text \<open>
  The loop of \<^verbatim>\<open>RemoveDropdown.callback\<close> runs over \<^verbatim>\<open>self.values\<close>, the chosen option
  values, which are strings, and calls \<^verbatim>\<open>entry.remove()\<close> on each. A Python value in
  that position is a string or a loaded record; \<^verbatim>\<open>str\<close> has no attribute
  \<^verbatim>\<open>remove\<close>, so the call on a string raises \<^verbatim>\<open>AttributeError\<close>.
\<close>

datatype pyobj = Str string | Sug suggestion

definition call_remove :: "pyobj \<Rightarrow> db \<Rightarrow> error + db" where
  "call_remove obj d =
     (case obj of Str _ \<Rightarrow> Inl AttributeError | Sug s \<Rightarrow> Suggestion_remove s d)"

text \<open>The loop stops at the first exception and keeps what it did before.\<close>

fun remove_each :: "pyobj list \<Rightarrow> db \<Rightarrow> error option \<times> db" where
  "remove_each [] d = (None, d)"
| "remove_each (entry # entries) d =
     (case call_remove entry d of
        Inl e \<Rightarrow> (Some e, d)
      | Inr d' \<Rightarrow> remove_each entries d')"

definition RemoveDropdown_callback ::
  "('k::linorder) env \<Rightarrow> string list \<Rightarrow> db \<Rightarrow> (error + embed) \<times> db" where
  "RemoveDropdown_callback X vals d =
     (case remove_each (map Str vals) d of
        (Some e, d') \<Rightarrow> (Inl e, d')
      | (None, d') \<Rightarrow> SuggestionsDropdown_callback X d')"

definition RemoveButton_callback ::
  "'k env \<Rightarrow> member \<Rightarrow> db \<Rightarrow> (error + string \<times> select_menu) \<times> db" where
  "RemoveButton_callback X user d =
     (case UserSuggestionsDropdown_init X user d of
        Inl e \<Rightarrow> (Inl e, d)
      | Inr menu \<Rightarrow> (Inr (''Which suggestions would you like to remove?'', menu), d))"

subsection \<open>Prioritizing: \<^verbatim>\<open>PrioritizeDropdown\<close>, \<^verbatim>\<open>PrioritizeButton\<close>\<close>

text \<open>
  \<^verbatim>\<open>PrioritizeDropdown.callback\<close>: every record of \<^verbatim>\<open>self.get_all()\<close> gets
  \<^verbatim>\<open>is_prioritized = True\<close>; nothing else is assigned. Then the listing is shown.
\<close>

definition PrioritizeDropdown_callback ::
  "('k::linorder) env \<Rightarrow> string list \<Rightarrow> db \<Rightarrow> (error + embed) \<times> db" where
  "PrioritizeDropdown_callback X vals d =
     (case SuggestionsDropdown_get_all vals d of
        Inl e \<Rightarrow> (Inl e, d)
      | Inr sugs \<Rightarrow>
          SuggestionsDropdown_callback X
            (fold (\<lambda>sug. set_is_prioritized sug True) sugs d))"

definition PrioritizeButton_callback ::
  "'k env \<Rightarrow> db \<Rightarrow> (error + string \<times> select_menu) \<times> db" where
  "PrioritizeButton_callback X d =
     (case PrioritizeDropdown_init X d of
        Inl e \<Rightarrow> (Inl e, d)
      | Inr menu \<Rightarrow> (Inr (''What would you like to prioritize?'', menu), d))"

text \<open>
  Both \<^verbatim>\<open>interaction_check\<close> methods: \<^verbatim>\<open>CheckFailure\<close> is raised unless the user is a
  Literature Chair, otherwise the check returns \<^verbatim>\<open>True\<close>.
\<close>

definition PrioritizeDropdown_interaction_check :: "'k env \<Rightarrow> member \<Rightarrow> error + bool" where
  "PrioritizeDropdown_interaction_check X user =
     (if \<not> is_lit_chair X user then Inl CheckFailure else Inr True)"

definition PrioritizeButton_interaction_check :: "'k env \<Rightarrow> member \<Rightarrow> error + bool" where
  "PrioritizeButton_interaction_check X user =
     (if \<not> is_lit_chair X user then Inl CheckFailure else Inr True)"

text \<open>
  How \<^verbatim>\<open>discord.ui.View\<close> runs an item on an interaction: the item's
  \<^verbatim>\<open>interaction_check\<close> first; the callback runs only if the check returned true, and an
  exception of the check ends the interaction without the callback. \<open>Inr None\<close> is an
  interaction the check declined.
\<close>

definition run_item ::
  "(error + bool) \<Rightarrow> (db \<Rightarrow> (error + 'r) \<times> db) \<Rightarrow> db \<Rightarrow> (error + 'r option) \<times> db" where
  "run_item check callback d =
     (case check of
        Inl e \<Rightarrow> (Inl e, d)
      | Inr allow \<Rightarrow>
          if allow
          then (case callback d of
                  (Inl e, d') \<Rightarrow> (Inl e, d')
                | (Inr r, d') \<Rightarrow> (Inr (Some r), d'))
          else (Inr None, d))"

definition PrioritizeDropdown_interaction ::
  "('k::linorder) env \<Rightarrow> member \<Rightarrow> string list \<Rightarrow> db \<Rightarrow> (error + embed option) \<times> db" where
  "PrioritizeDropdown_interaction X user vals d =
     run_item (PrioritizeDropdown_interaction_check X user)
       (PrioritizeDropdown_callback X vals) d"

definition PrioritizeButton_interaction ::
  "'k env \<Rightarrow> member \<Rightarrow> db \<Rightarrow> (error + (string \<times> select_menu) option) \<times> db" where
  "PrioritizeButton_interaction X user d =
     run_item (PrioritizeButton_interaction_check X user) (PrioritizeButton_callback X) d"

subsection \<open>A sample environment and catalog\<close>

text \<open>
  A reader of decimal numerals with an optional sign, enough of \<^verbatim>\<open>int\<close> to run the
  handlers on the inputs below: it rejects every other string.
\<close>

fun digits_value :: "string \<Rightarrow> nat \<Rightarrow> nat option" where
  "digits_value [] acc = Some acc"
| "digits_value (c # cs) acc =
     (if 48 \<le> (of_char c :: nat) \<and> (of_char c :: nat) \<le> 57
      then digits_value cs (10 * acc + (of_char c - 48))
      else None)"

definition decimal_int :: "string \<Rightarrow> int option" where
  "decimal_int s =
     (case s of
        [] \<Rightarrow> None
      | c # cs \<Rightarrow>
          if c = CHR ''-'' then
            (if cs = [] then None else map_option (\<lambda>n. - int n) (digits_value cs 0))
          else if c = CHR ''+'' then
            (if cs = [] then None else map_option int (digits_value cs 0))
          else map_option int (digits_value s 0))"

text \<open>
  The chair role has id 7; the status ranks prioritized records first; a record is
  shown by its title, and a menu carries the title as the record's identifier.
\<close>

definition env0 :: "nat env" where
  "env0 =
     \<lparr>is_lit_chair = (\<lambda>u. 7 \<in> set (role_ids u)),
      abbreviate = take 20,
      status = (\<lambda>s. if is_prioritized s then 0 else 1),
      display_title = title,
      doc_id = title,
      py_int = decimal_int\<rparr>"

definition chair :: member where
  "chair = \<lparr>user_id = 1, role_ids = [7]\<rparr>"

definition reader :: member where
  "reader = \<lparr>user_id = 2, role_ids = []\<rparr>"

definition sugA :: suggestion where
  "sugA = \<lparr>title = ''A'', owner_id = 1, total_ch = 0, next_ch = 0,
           notes = ''first'', is_prioritized = True\<rparr>"

definition sugB :: suggestion where
  "sugB = \<lparr>title = ''B'', owner_id = 2, total_ch = 12, next_ch = 3,
           notes = ''second'', is_prioritized = False\<rparr>"

definition db0 :: db where
  "db0 = [sugB, sugA]"

section \<open>Properties\<close>

subsection \<open>Auxiliary facts\<close>

lemma add_each_add_option:
  "length (options m) \<le> 25 \<Longrightarrow>
   add_each (\<lambda>entry. add_option (f entry) (g entry) (h entry)) xs m =
     (if length (options m) + length xs \<le> 25
      then Inr (m\<lparr>options := options m @
             map (\<lambda>entry. \<lparr>opt_label = f entry, opt_value = g entry,
                           opt_default = h entry\<rparr>) xs\<rparr>)
      else Inl ValueError)"
proof (induction xs arbitrary: m)
  case Nil
  then show ?case by simp
next
  case (Cons x xs)
  show ?case
  proof (cases "length (options m) \<ge> 25")
    case True
    then show ?thesis by (simp add: add_option_def)
  next
    case False
    let ?m' = "m\<lparr>options := options m @
                 [\<lparr>opt_label = f x, opt_value = g x, opt_default = h x\<rparr>]\<rparr>"
    have len: "length (options ?m') \<le> 25"
      using False by simp
    have "add_each (\<lambda>entry. add_option (f entry) (g entry) (h entry)) (x # xs) m =
            add_each (\<lambda>entry. add_option (f entry) (g entry) (h entry)) xs ?m'"
      using False by (simp add: add_option_def)
    then show ?thesis
      using Cons.IH [OF len] by simp
  qed
qed

text \<open>A user who owns 26 suggestions gets no menu: the 26th option is refused.\<close>

lemma UserSuggestionsDropdown_init_over_25:
  "UserSuggestionsDropdown_init env0 reader (replicate 26 sugB) = Inl ValueError"
proof -
  have "filter (\<lambda>s. owner_id s = user_id reader) (replicate 26 sugB) = replicate 26 sugB"
    by (simp add: sugB_def reader_def)
  then show ?thesis
    by (simp add: UserSuggestionsDropdown_init_def Suggestion_from_user_def
        Suggestion_all_def add_each_add_option Select_init_def)
qed

lemma fold_append_titles:
  "fold (\<lambda>sug titles. titles @ [f sug]) xs acc = acc @ map f xs"
  by (induction xs arbitrary: acc) simp_all

lemma embed_titles_map:
  "embed_titles X d = map (display_title X) (sorted_suggestions X d)"
  by (simp add: embed_titles_def fold_append_titles)

lemma find_list_ex: "find P xs = Some x \<Longrightarrow> list_ex P xs"
  by (induction xs) (auto split: if_splits)

text \<open>The remove loop never reaches the store: its first entry is a string.\<close>

lemma remove_each_strings:
  "vals \<noteq> [] \<Longrightarrow> remove_each (map Str vals) d = (Some AttributeError, d)"
  by (cases vals) (simp_all add: call_remove_def)

lemma RemoveDropdown_callback_raises:
  "vals \<noteq> [] \<Longrightarrow> RemoveDropdown_callback X vals d = (Inl AttributeError, d)"
  by (simp add: RemoveDropdown_callback_def remove_each_strings)

text \<open>The prioritize callback keeps every row and never clears a flag.\<close>

lemma set_is_prioritized_flags:
  "list_all2 (\<lambda>a b. title b = title a \<and> (is_prioritized a \<longrightarrow> is_prioritized b))
     d (set_is_prioritized sug True d)"
  by (induction d) (simp_all add: set_is_prioritized_def)

lemma fold_set_is_prioritized_flags:
  "list_all2 (\<lambda>a b. title b = title a \<and> (is_prioritized a \<longrightarrow> is_prioritized b))
     d (fold (\<lambda>sug. set_is_prioritized sug True) sugs d)"
proof (induction sugs arbitrary: d)
  case Nil
  then show ?case by (simp add: list_all2_refl)
next
  case (Cons sug sugs)
  have step:
    "list_all2 (\<lambda>a b. title b = title a \<and> (is_prioritized a \<longrightarrow> is_prioritized b))
       (set_is_prioritized sug True d)
       (fold (\<lambda>sug. set_is_prioritized sug True) sugs (set_is_prioritized sug True d))"
    by (rule Cons.IH)
  have "list_all2 (\<lambda>a b. title b = title a \<and> (is_prioritized a \<longrightarrow> is_prioritized b))
          d (fold (\<lambda>sug. set_is_prioritized sug True) sugs (set_is_prioritized sug True d))"
    by (rule list_all2_trans [OF _ set_is_prioritized_flags [of d sug] step]) simp
  then show ?case by simp
qed

lemma PrioritizeDropdown_callback_never_clears:
  "list_all2 (\<lambda>a b. title b = title a \<and> (is_prioritized a \<longrightarrow> is_prioritized b))
     d (snd (PrioritizeDropdown_callback X vals d))"
  by (auto simp: PrioritizeDropdown_callback_def SuggestionsDropdown_callback_def
      fold_set_is_prioritized_flags list_all2_refl split: sum.splits)

text \<open>The edit handler never writes the stored notes.\<close>

lemma EditModal_on_submit_keeps_notes:
  "map notes (snd (snd (EditModal_on_submit X m v d))) = map notes d"
  by (auto simp: EditModal_on_submit_def Let_def Suggestion_update_def
      split: option.splits sum.splits if_splits)

subsection \<open>Prioritization\<close>

text \<open>
  Claim C1 has a prioritize submission of a subset \<open>S\<close> set \<open>is_prioritized\<close> for
  exactly \<open>S\<close> and clear it for every other entry, the empty subset included. The
  callback only assigns \<open>True\<close> to the chosen records. On the catalog holding B
  (not prioritized) and A (prioritized), the menu shows A pre-checked; the chair's empty
  submission leaves the catalog as it was, A still prioritized; the submission of B
  alone leaves both prioritized.
\<close>

theorem prioritize_submission_keeps_other_flags:
  "PrioritizeDropdown_init env0 db0 =
     Inr \<lparr>min_values = 0, max_values = 2, options =
       [\<lparr>opt_label = ''B'', opt_value = ''B'', opt_default = False\<rparr>,
        \<lparr>opt_label = ''A'', opt_value = ''A'', opt_default = True\<rparr>]\<rparr>
   \<and> PrioritizeDropdown_interaction env0 chair [] db0 =
       (Inr (Some (suggestions_embed env0 db0)), db0)
   \<and> map title db0 = [''B'', ''A'']
   \<and> map is_prioritized db0 = [False, True]
   \<and> map is_prioritized (snd (PrioritizeDropdown_interaction env0 chair [''B''] db0)) =
       [True, True]"
  by (simp add: PrioritizeDropdown_interaction_def run_item_def
      PrioritizeDropdown_interaction_check_def PrioritizeDropdown_callback_def
      SuggestionsDropdown_callback_def env0_def chair_def db0_def Suggestion_get_def
      set_is_prioritized_def sugA_def sugB_def PrioritizeDropdown_init_def
      Suggestion_all_def Select_init_def add_option_def Let_def)

text \<open>
  Claim C2: for a user who is not a Literature Chair, a prioritization attempt (the
  button as well as the submitted menu) is rejected by the raised \<open>CheckFailure\<close>, the
  module's unauthorized signal, before the callback runs: the catalog, and so every
  \<open>is_prioritized\<close> field, is what it was, whatever the selection holds.
\<close>

theorem unprivileged_prioritize_rejected:
  assumes "\<not> is_lit_chair X user"
  shows "PrioritizeDropdown_interaction X user vals d = (Inl CheckFailure, d)
       \<and> PrioritizeButton_interaction X user d = (Inl CheckFailure, d)"
  using assms
  by (simp add: PrioritizeDropdown_interaction_def PrioritizeButton_interaction_def
      run_item_def PrioritizeDropdown_interaction_check_def
      PrioritizeButton_interaction_check_def)

theorem unprivileged_prioritize_rejected_witness:
  "PrioritizeDropdown_interaction env0 reader [''B''] db0 = (Inl CheckFailure, db0)
   \<and> PrioritizeButton_interaction env0 reader db0 = (Inl CheckFailure, db0)"
proof -
  have h: "\<not> is_lit_chair env0 reader"
    by (simp add: env0_def reader_def)
  show ?thesis
    by (rule unprivileged_prioritize_rejected [OF h])
qed

subsection \<open>Editing\<close>

text \<open>
  Claim C3 has an edit apply title, next chapter, total chapters and notes together:
  all of them visible afterwards or none. The handler assigns the submitted notes to
  \<open>self.notes\<close>, not to the record. Editing B with a new title, a new next chapter and
  new notes commits the title and the chapter, and the stored notes stay \<open>second\<close>.
\<close>

theorem edit_submission_drops_notes:
  "EditModal_init ''B'' db0 =
     Inr \<lparr>suggestion = sugB, TITLE_default = ''B'', NEXT_CH_default = 3,
          TOTAL_CH_default = 12, NOTES_default = ''second'', self_notes = None\<rparr>
   \<and> snd (snd (EditModal_on_submit env0
        \<lparr>suggestion = sugB, TITLE_default = ''B'', NEXT_CH_default = 3,
          TOTAL_CH_default = 12, NOTES_default = ''second'', self_notes = None\<rparr>
        \<lparr>E_TITLE = ''C'', E_NEXT_CH = ''4'', E_TOTAL_CH = [], E_NOTES = ''changed''\<rparr>
        db0)) =
     [\<lparr>title = ''C'', owner_id = 2, total_ch = 12, next_ch = 4, notes = ''second'',
        is_prioritized = False\<rparr>, sugA]"
  by (simp add: EditModal_init_def EditModal_on_submit_def Suggestion_get_def
      Suggestion_update_def db0_def sugA_def sugB_def env0_def decimal_int_def)

text \<open>
  Claim C9: an edit submission never reassigns ownership. Whatever the inputs and
  whether the handler commits or raises, every stored record keeps its owner, and so
  does the record the modal holds.
\<close>

theorem edit_keeps_owner:
  "map owner_id (snd (snd (EditModal_on_submit X m v d))) = map owner_id d
   \<and> owner_id (suggestion (fst (snd (EditModal_on_submit X m v d)))) =
       owner_id (suggestion m)"
  by (auto simp: EditModal_on_submit_def Let_def Suggestion_update_def
      split: option.splits sum.splits if_splits)

subsection \<open>Adding\<close>

text \<open>
  Claim C4: in a catalog that already holds a suggestion \<open>s\<close> with title \<open>T\<close>, creating
  a suggestion with title \<open>T\<close> fails with \<open>DuplicateTitle\<close>, the add form ends with that
  error whenever its chapters field is accepted, and the catalog, with the record \<open>s\<close>
  under \<open>T\<close>, is what it was.
\<close>

theorem create_duplicate_title_fails:
  assumes "Suggestion_get T d = Inr s" and "TITLE m = T"
  shows "Suggestion_new T uid k nts d = (Inl DuplicateTitle, d)
       \<and> fst (AddModal_on_submit X user m d) =
           (case AddModal_total_ch X (CHAPTERS m) of
              Inl e \<Rightarrow> Inl e
            | Inr n \<Rightarrow> Inl DuplicateTitle)
       \<and> snd (AddModal_on_submit X user m d) = d
       \<and> Suggestion_get T (snd (AddModal_on_submit X user m d)) = Inr s"
proof -
  have "list_ex (\<lambda>s. title s = T) d"
    using assms(1)
    by (auto simp: Suggestion_get_def split: option.splits dest: find_list_ex)
  then have new: "Suggestion_new T uid' k' nts' d = (Inl DuplicateTitle, d)" for uid' k' nts'
    by (simp add: Suggestion_new_def)
  have "AddModal_on_submit X user m d =
          (case AddModal_total_ch X (CHAPTERS m) of
             Inl e \<Rightarrow> (Inl e, d)
           | Inr n \<Rightarrow> (Inl DuplicateTitle, d))"
    using assms(2) new by (simp add: AddModal_on_submit_def split: sum.splits)
  then show ?thesis
    using new assms(1) by (simp split: sum.splits)
qed

theorem create_duplicate_title_fails_witness:
  "Suggestion_new ''B'' 1 5 ''again'' db0 = (Inl DuplicateTitle, db0)
   \<and> AddModal_on_submit env0 chair
        \<lparr>TITLE = ''B'', CHAPTERS = Some ''5'', NOTES = ''again''\<rparr> db0 =
       (Inl DuplicateTitle, db0)
   \<and> Suggestion_get ''B'' db0 = Inr sugB"
proof -
  have g: "Suggestion_get ''B'' db0 = Inr sugB"
    by (simp add: Suggestion_get_def db0_def sugB_def)
  have t: "TITLE \<lparr>TITLE = ''B'', CHAPTERS = Some ''5'', NOTES = ''again''\<rparr> = ''B''"
    by simp
  have c: "AddModal_total_ch env0 (Some ''5'') = Inr 5"
    by (simp add: AddModal_total_ch_def env0_def decimal_int_def)
  show ?thesis
    using create_duplicate_title_fails [OF g t, of 1 5 "''again''" env0 chair] g c
    by (simp add: prod_eq_iff)
qed

text \<open>
  Claim C8 has an add form whose chapters field holds text that is not a number fail
  with \<open>InvalidInput\<close>, shown to the user as a rejected submission and not an unhandled
  error. The handler has no such path: \<^verbatim>\<open>int(chapters)\<close> raises \<^verbatim>\<open>ValueError\<close>, which
  leaves \<^verbatim>\<open>on_submit\<close>. With the field \<open>abc\<close> the result is that exception.
\<close>

theorem add_nonnumeric_chapters_counterexample:
  "AddModal_on_submit env0 reader
     \<lparr>TITLE = ''C'', CHAPTERS = Some ''abc'', NOTES = ''n''\<rparr> db0 = (Inl ValueError, db0)
   \<and> AddModal_on_submit env0 reader
     \<lparr>TITLE = ''C'', CHAPTERS = Some ''abc'', NOTES = ''n''\<rparr> db0 \<noteq> (Inl InvalidInput, db0)"
  by (simp add: AddModal_on_submit_def AddModal_total_ch_def env0_def decimal_int_def)

text \<open>
  Claim C8, amended: for every add form whose chapters field holds text that \<^verbatim>\<open>int\<close>
  rejects, \<^verbatim>\<open>on_submit\<close> raises \<^verbatim>\<open>ValueError\<close> before \<^verbatim>\<open>Suggestion.new\<close> is called, and
  no suggestion is created: the catalog is what it was.
\<close>

theorem add_nonnumeric_chapters_raises:
  assumes "CHAPTERS m = Some c" and "c \<noteq> []" and "py_int X c = None"
  shows "AddModal_on_submit X user m d = (Inl ValueError, d)"
  using assms by (simp add: AddModal_on_submit_def AddModal_total_ch_def)

theorem add_nonnumeric_chapters_raises_witness:
  "AddModal_on_submit env0 reader
     \<lparr>TITLE = ''C'', CHAPTERS = Some ''12a'', NOTES = ''n''\<rparr> db0 = (Inl ValueError, db0)"
proof -
  have c: "CHAPTERS \<lparr>TITLE = ''C'', CHAPTERS = Some ''12a'', NOTES = ''n''\<rparr> = Some ''12a''"
    by simp
  have n: "''12a'' \<noteq> []"
    by simp
  have p: "py_int env0 ''12a'' = None"
    by (simp add: env0_def decimal_int_def)
  show ?thesis
    by (rule add_nonnumeric_chapters_raises [OF c n p])
qed

text \<open>
  Claim C10: when the chapters field of the add form is absent or empty, the handler
  passes \<open>total_ch = 0\<close> to \<^verbatim>\<open>Suggestion.new\<close>; whenever the submission creates a
  suggestion, it is the new last record, with the submitted title and 0 chapters; and a
  fresh title with notes does create it.
\<close>

theorem blank_chapters_total_zero:
  assumes "CHAPTERS m = None \<or> CHAPTERS m = Some []"
  shows "AddModal_total_ch X (CHAPTERS m) = Inr 0
     \<and> (\<forall>r d'. AddModal_on_submit X user m d = (Inr r, d') \<longrightarrow>
           (\<exists>s. d' = d @ [s] \<and> title s = TITLE m \<and> total_ch s = 0))
     \<and> (\<not> list_ex (\<lambda>s. title s = TITLE m) d \<and> NOTES m \<noteq> [] \<longrightarrow>
           AddModal_on_submit X user m d =
             (Inr (suggestions_embed X
                (d @ [\<lparr>title = TITLE m, owner_id = user_id user, total_ch = 0, next_ch = 0,
                        notes = NOTES m, is_prioritized = False\<rparr>])),
              d @ [\<lparr>title = TITLE m, owner_id = user_id user, total_ch = 0, next_ch = 0,
                      notes = NOTES m, is_prioritized = False\<rparr>]))"
proof -
  have t: "AddModal_total_ch X (CHAPTERS m) = Inr 0"
    using assms by (auto simp: AddModal_total_ch_def)
  show ?thesis
    using t
    by (auto simp: AddModal_on_submit_def Suggestion_new_def Let_def split: if_splits)
qed

theorem blank_chapters_total_zero_witness:
  "AddModal_total_ch env0 (Some []) = Inr 0
   \<and> snd (AddModal_on_submit env0 reader
        \<lparr>TITLE = ''C'', CHAPTERS = Some [], NOTES = ''n''\<rparr> db0) =
       db0 @ [\<lparr>title = ''C'', owner_id = 2, total_ch = 0, next_ch = 0, notes = ''n'',
                is_prioritized = False\<rparr>]"
proof -
  have b: "CHAPTERS \<lparr>TITLE = ''C'', CHAPTERS = Some [], NOTES = ''n''\<rparr> = None
           \<or> CHAPTERS \<lparr>TITLE = ''C'', CHAPTERS = Some [], NOTES = ''n''\<rparr> = Some []"
    by simp
  have f: "\<not> list_ex (\<lambda>s. title s = ''C'') db0"
    by (simp add: db0_def sugA_def sugB_def)
  show ?thesis
    using blank_chapters_total_zero [OF b, of env0 reader db0] f
    by (simp add: reader_def)
qed

subsection \<open>Removing\<close>

text \<open>
  Claim C5 has a removal submitted through the remove flow succeed, after which the
  title is not found and the listing has no line for it. The callback calls
  \<^verbatim>\<open>remove()\<close> on the chosen option values, which are strings: the owner of B, whose
  menu offers B, submits it, the callback raises \<^verbatim>\<open>AttributeError\<close>, and B is still
  found and still listed.
\<close>

theorem remove_submission_raises:
  "UserSuggestionsDropdown_init env0 reader db0 =
     Inr \<lparr>min_values = 1, max_values = 1, options =
       [\<lparr>opt_label = ''B'', opt_value = ''B'', opt_default = False\<rparr>]\<rparr>
   \<and> RemoveDropdown_callback env0 [''B''] db0 = (Inl AttributeError, db0)
   \<and> Suggestion_get ''B'' (snd (RemoveDropdown_callback env0 [''B''] db0)) = Inr sugB
   \<and> embed_titles env0 (snd (RemoveDropdown_callback env0 [''B''] db0)) = [''A'', ''B'']"
  by (simp add: RemoveDropdown_callback_def call_remove_def UserSuggestionsDropdown_init_def
      Select_init_def add_option_def Suggestion_from_user_def Suggestion_all_def
      Suggestion_get_def embed_titles_def sorted_suggestions_def
      db0_def sugA_def sugB_def env0_def reader_def)

subsection \<open>Listing and menus\<close>

text \<open>
  Claim C6: the embed that \<^verbatim>\<open>suggestions_embed\<close> returns has, as its description, the
  display titles of the sorted catalog joined by newlines, one line per suggestion in
  that order. The sorted catalog is a permutation of the catalog in which records of
  equal status keep their catalog order, so the sequence of lines is determined by the
  catalog alone; showing the listing returns the catalog unchanged, and showing it again
  on the returned catalog gives the same embed. When the status key ranks every
  prioritized record below every other one (section 3 of the spec: prioritized entries
  sort first), every prioritized record stands strictly before every record that is not.
\<close>

theorem listing_prioritized_first:
  assumes "\<forall>a b. is_prioritized a \<and> \<not> is_prioritized b \<longrightarrow> status X a < status X b"
  shows "suggestions_embed X d =
           \<lparr>embed_title = ''Suggested works:'',
            description =
              join [CHR 0x0A] (map (display_title X) (sorted_suggestions X d))\<rparr>
     \<and> mset (sorted_suggestions X d) = mset (Suggestion_all d)
     \<and> (\<forall>k. filter (\<lambda>s. status X s = k) (sorted_suggestions X d) =
              filter (\<lambda>s. status X s = k) (Suggestion_all d))
     \<and> (\<forall>i j. i < length (sorted_suggestions X d) \<and> j < length (sorted_suggestions X d)
           \<and> is_prioritized (sorted_suggestions X d ! i)
           \<and> \<not> is_prioritized (sorted_suggestions X d ! j) \<longrightarrow> i < j)
     \<and> snd (SuggestionsDropdown_callback X d) = d
     \<and> fst (SuggestionsDropdown_callback X (snd (SuggestionsDropdown_callback X d))) =
         Inr \<lparr>embed_title = ''Suggested works:'',
              description =
                join [CHR 0x0A] (map (display_title X) (sorted_suggestions X d))\<rparr>"
proof -
  let ?xs = "sorted_suggestions X d"
  have srt: "sorted (map (status X) ?xs)"
    by (simp add: sorted_suggestions_def)
  have ord: "i < j"
    if "i < length ?xs" "j < length ?xs"
      "is_prioritized (?xs ! i)" "\<not> is_prioritized (?xs ! j)" for i j
  proof (rule ccontr)
    assume "\<not> i < j"
    then have "j \<le> i" by simp
    then have "map (status X) ?xs ! j \<le> map (status X) ?xs ! i"
      using srt that(1) by (simp add: sorted_iff_nth_mono del: nth_map)
    then have "status X (?xs ! j) \<le> status X (?xs ! i)"
      using that(1,2) by simp
    moreover have "status X (?xs ! i) < status X (?xs ! j)"
      using assms that(3,4) by blast
    ultimately show False by simp
  qed
  have emb: "suggestions_embed X d =
               \<lparr>embed_title = ''Suggested works:'',
                description = join [CHR 0x0A] (map (display_title X) ?xs)\<rparr>"
    by (simp add: suggestions_embed_def embed_titles_map)
  have perm: "mset ?xs = mset (Suggestion_all d)"
    by (simp add: sorted_suggestions_def)
  have stab: "filter (\<lambda>s. status X s = k) ?xs =
                filter (\<lambda>s. status X s = k) (Suggestion_all d)" for k
    by (simp add: sorted_suggestions_def sort_key_stable)
  have cb: "SuggestionsDropdown_callback X d' = (Inr (suggestions_embed X d'), d')" for d'
    by (simp add: SuggestionsDropdown_callback_def)
  show ?thesis
    using ord emb perm stab by (simp add: cb)
qed

theorem listing_prioritized_first_witness:
  "suggestions_embed env0 db0 =
     \<lparr>embed_title = ''Suggested works:'', description = ''A'' @ [CHR 0x0A] @ ''B''\<rparr>
   \<and> sorted_suggestions env0 db0 = [sugA, sugB]
   \<and> Suggestion_all db0 = [sugB, sugA]
   \<and> fst (SuggestionsDropdown_callback env0 (snd (SuggestionsDropdown_callback env0 db0))) =
       Inr \<lparr>embed_title = ''Suggested works:'', description = ''A'' @ [CHR 0x0A] @ ''B''\<rparr>"
proof -
  have h: "\<forall>a b. is_prioritized a \<and> \<not> is_prioritized b \<longrightarrow> status env0 a < status env0 b"
    by (simp add: env0_def)
  have s: "sorted_suggestions env0 db0 = [sugA, sugB]"
    by (simp add: sorted_suggestions_def Suggestion_all_def env0_def db0_def sugA_def sugB_def)
  have t: "map (display_title env0) [sugA, sugB] = [''A'', ''B'']"
    by (simp add: env0_def sugA_def sugB_def)
  have a: "Suggestion_all db0 = [sugB, sugA]"
    by (simp add: Suggestion_all_def db0_def)
  show ?thesis
    using listing_prioritized_first [OF h, of db0] s t a
    by (simp add: SuggestionsDropdown_callback_def)
qed

text \<open>
  Claim C7: the candidates of the edit and remove menus of a user are exactly the
  records of the full suggestion list owned by that user, in the order of the full list:
  a subsequence of it, holding the records of that owner and no others, as often as
  the full list does. The menu of the user is built from these candidates alone: up to
  25 of them give one option each, carrying the title, in that order; with more,
  building the menu raises \<^verbatim>\<open>ValueError\<close>, and so do the edit and remove buttons.
\<close>

theorem owner_menu_is_filtered_list:
  "Suggestion_from_user (user_id user) d =
     filter (\<lambda>s. owner_id s = user_id user) (Suggestion_all d)
   \<and> subseq (Suggestion_from_user (user_id user) d) (Suggestion_all d)
   \<and> mset (Suggestion_from_user (user_id user) d) =
       filter_mset (\<lambda>s. owner_id s = user_id user) (mset (Suggestion_all d))
   \<and> UserSuggestionsDropdown_init X user d =
       (if length (filter (\<lambda>s. owner_id s = user_id user) (Suggestion_all d)) \<le> 25
        then Inr \<lparr>min_values = 1, max_values = 1,
                  options =
                    map (\<lambda>entry. \<lparr>opt_label = abbreviate X (title entry),
                                  opt_value = title entry, opt_default = False\<rparr>)
                      (filter (\<lambda>s. owner_id s = user_id user) (Suggestion_all d))\<rparr>
        else Inl ValueError)
   \<and> EditButton_callback X user d =
       (if length (filter (\<lambda>s. owner_id s = user_id user) (Suggestion_all d)) \<le> 25
        then (Inr (''Which suggestions would you like to edit?'',
                \<lparr>min_values = 1, max_values = 1,
                  options =
                    map (\<lambda>entry. \<lparr>opt_label = abbreviate X (title entry),
                                  opt_value = title entry, opt_default = False\<rparr>)
                      (filter (\<lambda>s. owner_id s = user_id user) (Suggestion_all d))\<rparr>), d)
        else (Inl ValueError, d))
   \<and> RemoveButton_callback X user d =
       (if length (filter (\<lambda>s. owner_id s = user_id user) (Suggestion_all d)) \<le> 25
        then (Inr (''Which suggestions would you like to remove?'',
                \<lparr>min_values = 1, max_values = 1,
                  options =
                    map (\<lambda>entry. \<lparr>opt_label = abbreviate X (title entry),
                                  opt_value = title entry, opt_default = False\<rparr>)
                      (filter (\<lambda>s. owner_id s = user_id user) (Suggestion_all d))\<rparr>), d)
        else (Inl ValueError, d))"
proof -
  let ?cands = "filter (\<lambda>s. owner_id s = user_id user) (Suggestion_all d)"
  have c: "Suggestion_from_user (user_id user) d = ?cands"
    by (simp add: Suggestion_from_user_def)
  have menu: "UserSuggestionsDropdown_init X user d =
       (if length ?cands \<le> 25
        then Inr \<lparr>min_values = 1, max_values = 1,
                  options =
                    map (\<lambda>entry. \<lparr>opt_label = abbreviate X (title entry),
                                  opt_value = title entry, opt_default = False\<rparr>) ?cands\<rparr>
        else Inl ValueError)"
    by (simp add: UserSuggestionsDropdown_init_def c add_each_add_option Select_init_def)
  show ?thesis
    by (simp add: c menu EditButton_callback_def RemoveButton_callback_def)
qed

end
